theory Spec2Isabelle
  imports Complex_Main "HOL-Library.Sublist"
begin

text \<open>
  A shallow embedding of parts of the Path to Power game server: the shop's buy, sell,
  stacking and resupply methods (\<open>shop/object.js\<close>), the item manager's \<open>pickup\<close>,
  the chat command handlers with their cooldown gate (\<open>command/commands.js\<close>) and
  the user manager's \<open>authenticate\<close> (\<open>user/manager.js\<close>). Mutation is state
  passing, dispatched actions are collected in order, and a thrown exception is a value.
\<close>

section \<open>JavaScript values and array helpers\<close>

text \<open>
  Numbers that count things (stock, durability, experience, cooldown ticks, array
  indices) are \<open>int\<close>; prices, price multipliers and cash are \<open>rat\<close>, so a fractional
  multiplier is exact (the rounding of IEEE doubles is not modelled). An exception
  thrown by the JavaScript is a value of \<open>js_error\<close>. A \<open>string\<close> is a list of
  UTF-16 code units, each a \<open>char\<close>: the code units U+0000 to U+00FF; text with a code
  unit beyond U+00FF is outside the type.
\<close>

datatype js_error = TypeError | Rejected

text \<open>\<open>a || b\<close> for a number that may be \<open>null\<close>: \<open>null\<close> and \<open>0\<close> are falsy.\<close>

definition js_or :: "int option \<Rightarrow> int \<Rightarrow> int" where
  "js_or a b = (case a of None \<Rightarrow> b | Some n \<Rightarrow> if n = 0 then b else n)"

text \<open>\<open>xs[i]\<close>: \<open>undefined\<close> (here \<open>None\<close>) outside \<open>0 .. length - 1\<close>.\<close>

definition js_index :: "'a list \<Rightarrow> int \<Rightarrow> 'a option" where
  "js_index xs i = (if 0 \<le> i \<and> i < int (length xs) then Some (xs ! nat i) else None)"

text \<open>\<open>xs.splice(i, 1)\<close> for an index inside the array: the array without slot \<open>i\<close>.\<close>

definition splice1 :: "'a list \<Rightarrow> nat \<Rightarrow> 'a list" where
  "splice1 xs i = take i xs @ drop (Suc i) xs"

text \<open>\<open>xs.findIndex(p)\<close>; \<open>None\<close> stands for the result \<open>-1\<close>.\<close>

fun findIndex :: "('a \<Rightarrow> bool) \<Rightarrow> 'a list \<Rightarrow> nat option" where
  "findIndex p [] = None"
| "findIndex p (x # xs) =
     (if p x then Some 0 else map_option Suc (findIndex p xs))"

text \<open>
  \<open>o = xs.find(p); o.field = ...\<close>: the array holds references, so assigning to the
  object that \<open>find\<close> returned changes the first element that satisfies \<open>p\<close>, in place.
\<close>

fun update_first :: "('a \<Rightarrow> bool) \<Rightarrow> ('a \<Rightarrow> 'a) \<Rightarrow> 'a list \<Rightarrow> 'a list" where
  "update_first p f [] = []"
| "update_first p f (x # xs) = (if p x then f x # xs else x # update_first p f xs)"

text \<open>
  \<open>String.prototype.toLowerCase\<close>: the letters A to Z and, from U+00C0 to U+00DE, all
  but the multiplication sign U+00D7 have their lower-case form 32 code units up;
  every other code unit up to U+00FF stays.
\<close>

definition lower_char :: "char \<Rightarrow> char" where
  "lower_char c =
     (case map_of (zip (''ABCDEFGHIJKLMNOPQRSTUVWXYZ'' @
                        [CHR 0xC0, CHR 0xC1, CHR 0xC2, CHR 0xC3, CHR 0xC4, CHR 0xC5, CHR 0xC6,
                         CHR 0xC7, CHR 0xC8, CHR 0xC9, CHR 0xCA, CHR 0xCB, CHR 0xCC, CHR 0xCD,
                         CHR 0xCE, CHR 0xCF, CHR 0xD0, CHR 0xD1, CHR 0xD2, CHR 0xD3, CHR 0xD4,
                         CHR 0xD5, CHR 0xD6, CHR 0xD8, CHR 0xD9, CHR 0xDA, CHR 0xDB, CHR 0xDC,
                         CHR 0xDD, CHR 0xDE])
                       (''abcdefghijklmnopqrstuvwxyz'' @
                        [CHR 0xE0, CHR 0xE1, CHR 0xE2, CHR 0xE3, CHR 0xE4, CHR 0xE5, CHR 0xE6,
                         CHR 0xE7, CHR 0xE8, CHR 0xE9, CHR 0xEA, CHR 0xEB, CHR 0xEC, CHR 0xED,
                         CHR 0xEE, CHR 0xEF, CHR 0xF0, CHR 0xF1, CHR 0xF2, CHR 0xF3, CHR 0xF4,
                         CHR 0xF5, CHR 0xF6, CHR 0xF8, CHR 0xF9, CHR 0xFA, CHR 0xFB, CHR 0xFC,
                         CHR 0xFD, CHR 0xFE])) c of
        None \<Rightarrow> c
      | Some d \<Rightarrow> d)"

definition toLowerCase :: "string \<Rightarrow> string" where
  "toLowerCase s = map lower_char s"

text \<open>\<open>hay.indexOf(needle)\<close>: the first position where \<open>needle\<close> occurs, \<open>-1\<close> if none.\<close>

fun indexOf :: "string \<Rightarrow> string \<Rightarrow> int" where
  "indexOf [] needle = (if needle = [] then 0 else - 1)"
| "indexOf (c # cs) needle =
     (if prefix needle (c # cs) then 0
      else (let r = indexOf cs needle in if r = - 1 then - 1 else r + 1))"

section \<open>Data model\<close>

record item_stats =
  price :: rat
  stackable :: bool
  durability :: int

text \<open>
  An item template and an item instance are objects of the same class (the item manager
  stores \<open>new Item(null, itemData)\<close> as a template). \<open>db_id\<close> is the field \<open>_id\<close>.
\<close>

record item =
  item_id :: string
  item_name :: string
  item_type :: string
  subtype :: string
  stats :: item_stats
  fingerprint :: nat
  db_id :: "nat option"

text \<open>
  An entry of a shop's sell list is an item object that also carries \<open>shopQuantity\<close>
  (\<open>-1\<close> for unlimited stock) and \<open>expRequired\<close> (\<open>undefined\<close>, here \<open>None\<close>, on entries
  that \<open>resupply\<close> or \<open>addToInventory\<close> pushed). The list holds item objects only: the
  \<open>null\<close> slots that \<open>load\<close> leaves for unknown item ids are outside this type.
\<close>

record sell_entry =
  entry :: item
  shopQuantity :: int
  expRequired :: "int option"

record supply_item =
  supply_id :: string
  quantity :: "int \<times> int"

record supply_settings =
  supply_items :: "supply_item list"
  numberOfItems :: "int \<times> int"
  uniqueItems :: bool

record shop =
  shop_id :: string
  shop_name :: string
  sell_enabled :: bool
  sell_priceMultiplier :: rat
  sell_list :: "sell_entry list"
  buy_enabled :: bool
  buy_priceMultiplier :: rat
  buy_list :: "string list"
  buy_ignoreType :: "string list"
  buy_ignoreSubtype :: "string list"
  buy_resell :: bool
  shop_supply :: "supply_settings option"

text \<open>A location key \<open>`${map}_${y}_${x}`\<close>, kept as the triple it is built from.\<close>

type_synonym room = "string \<times> int \<times> int"

record character =
  user_id :: string
  char_name :: string
  stats_exp :: int
  stats_money :: rat
  inventory :: "item list"
  location :: room

subsection \<open>Dispatched actions\<close>

text \<open>A template literal is kept as its pieces: text and interpolated numbers.\<close>

datatype part = S string | N rat

type_synonym message = "part list"

record sell_export =
  ex_id :: string
  ex_name :: string
  ex_quantity :: int
  ex_expRequired :: "int option"
  ex_price :: rat

record chat_payload =
  chat_user_id :: string
  chat_name :: string
  chat_message :: string
  chat_type :: string

datatype action =
    GAME_EVENT string message "string list"
  | SHOP_UPDATE string "sell_export list"
  | CHAT_MESSAGE chat_payload
  | USER_AUTHENTICATE_ERROR string
  | USER_AUTHENTICATE_SUCCESS "string list"
  | CHARACTER_REMOTE_LOGOUT

text \<open>
  The calls the code makes to its collaborators, in the order it makes them: the socket
  manager's four dispatch calls (to a user id, a socket, a room, the server), the
  character manager's \<open>updateClient\<close>, the cooldown manager's \<open>add\<close> (actor, key,
  explicit duration, use of the default), and errors handed to the logger or to
  \<open>Game.onError\<close>.
\<close>

datatype effect =
    DispatchToUser string action
  | DispatchToSocket nat action
  | DispatchToRoom room action
  | DispatchToServer action
  | UpdateClient string
  | CooldownAdd string string "int option" bool
  | LoggerError js_error
  | OnError js_error

text \<open>
  The state the shop, item and chat code works on: the item manager's templates and
  dropped items, the character manager's characters by user id, the shop (\<open>this\<close> of
  the shop methods), the cooldown tracker, and the calls made so far.
\<close>

record game =
  templates :: "string \<rightharpoonup> item"
  dropped_items :: "room \<rightharpoonup> item list"
  characters :: "string \<rightharpoonup> character"
  this_shop :: shop
  cooldowns :: "string \<times> string \<rightharpoonup> int"
  cooldown_default :: "string \<Rightarrow> int"
  effects :: "effect list"

section \<open>Game: events\<close>

definition newEvent :: "string \<Rightarrow> message \<Rightarrow> string list \<Rightarrow> action" where
  "newEvent type msg ignore = GAME_EVENT type msg ignore"

definition emit :: "game \<Rightarrow> effect \<Rightarrow> game" where
  "emit g e = g\<lparr>effects := effects g @ [e]\<rparr>"

definition eventToUser :: "game \<Rightarrow> string \<Rightarrow> string \<Rightarrow> message \<Rightarrow> game" where
  "eventToUser g uid type msg = emit g (DispatchToUser uid (newEvent type msg []))"


section \<open>Item manager\<close>

definition getTemplate :: "(string \<rightharpoonup> item) \<Rightarrow> string \<Rightarrow> item option" where
  "getTemplate tpls iid = tpls (toLowerCase iid)"

text \<open>
  Modelled from the spec: the \<open>Item\<close> constructor (the item class is not among the
  sources). The instance is a copy of the template with the modifiers applied as field
  overrides and a fresh fingerprint. The only modifier the modelled code passes is
  \<open>{durability: n}\<close>; \<open>uuid\<close> is the fingerprint the constructor draws.
\<close>

definition new_Item :: "item \<Rightarrow> int option \<Rightarrow> nat \<Rightarrow> item" where
  "new_Item itemData modifiers uuid =
     itemData\<lparr>stats := (case modifiers of
                           None \<Rightarrow> stats itemData
                         | Some d \<Rightarrow> (stats itemData)\<lparr>durability := d\<rparr>),
               fingerprint := uuid\<rparr>"

definition itemManager_add ::
  "(string \<rightharpoonup> item) \<Rightarrow> nat \<Rightarrow> string \<Rightarrow> int option \<Rightarrow> nat option \<Rightarrow> item option" where
  "itemManager_add tpls uuid iid modifiers dbId =
     (case getTemplate tpls iid of
        None \<Rightarrow> None
      | Some template \<Rightarrow> Some ((new_Item template modifiers uuid)\<lparr>db_id := dbId\<rparr>))"

section \<open>Character\<close>

text \<open>
  Modelled from the spec: the character class is not among the sources. Its contract
  is \<open>updateCash(delta)\<close>, \<open>updateExp(delta)\<close>, \<open>giveItem(instance, slotHint)\<close> (the
  instance joins the inventory) and \<open>getLocationId()\<close>. \<open>hasRoomForItem\<close> is a
  parameter of the operations that call it.
\<close>

definition updateCash :: "character \<Rightarrow> rat \<Rightarrow> character" where
  "updateCash c delta = c\<lparr>stats_money := stats_money c + delta\<rparr>"

definition updateExp :: "character \<Rightarrow> int \<Rightarrow> character" where
  "updateExp c delta = c\<lparr>stats_exp := stats_exp c + delta\<rparr>"

definition giveItem :: "character \<Rightarrow> item \<Rightarrow> int \<Rightarrow> character" where
  "giveItem c itemObj slot = c\<lparr>inventory := inventory c @ [itemObj]\<rparr>"

definition getLocationId :: "character \<Rightarrow> room" where
  "getLocationId c = location c"

section \<open>Shop\<close>

subsection \<open>getSellList\<close>

text \<open>
  \<open>getSellList(true)\<close>: the plain objects sent to clients. \<open>itemTemplate.stats\<close> throws
  a \<open>TypeError\<close> when an entry has no template.
\<close>

fun export_entries :: "(string \<rightharpoonup> item) \<Rightarrow> sell_entry list \<Rightarrow> js_error + sell_export list" where
  "export_entries tpls [] = Inr []"
| "export_entries tpls (e # es) =
     (case getTemplate tpls (item_id (entry e)) of
        None \<Rightarrow> Inl TypeError
      | Some itemTemplate \<Rightarrow>
          (case export_entries tpls es of
             Inl err \<Rightarrow> Inl err
           | Inr rest \<Rightarrow>
               Inr (\<lparr>ex_id = item_id (entry e), ex_name = item_name (entry e),
                     ex_quantity = shopQuantity e, ex_expRequired = expRequired e,
                     ex_price = price (stats itemTemplate)\<rparr> # rest)))"

definition getSellList :: "(string \<rightharpoonup> item) \<Rightarrow> shop \<Rightarrow> js_error + sell_export list" where
  "getSellList tpls this =
     (if \<not> sell_enabled this then Inr [] else export_entries tpls (sell_list this))"

subsection \<open>addToInventory\<close>

definition addToInventory :: "shop \<Rightarrow> item \<Rightarrow> int option \<Rightarrow> shop" where
  "addToInventory this itemObj amount =
     (if stackable (stats itemObj) then
        (let amount' = js_or amount (durability (stats itemObj)) in
         case find (\<lambda>obj. item_id (entry obj) = item_id itemObj) (sell_list this) of
           Some inventoryItem \<Rightarrow>
             this\<lparr>sell_list :=
                    update_first (\<lambda>obj. item_id (entry obj) = item_id itemObj)
                      (\<lambda>obj. obj\<lparr>shopQuantity := shopQuantity obj + amount'\<rparr>)
                      (sell_list this)\<rparr>
         | None \<Rightarrow>
             this\<lparr>sell_list := sell_list this @
                    [\<lparr>entry = itemObj, shopQuantity = amount', expRequired = None\<rparr>]\<rparr>)
      else
        (case find (\<lambda>obj. item_id (entry obj) = item_id itemObj \<and> shopQuantity obj = - 1)
                (sell_list this) of
           Some inventoryItem \<Rightarrow> this
         | None \<Rightarrow>
             (case find (\<lambda>obj. item_id (entry obj) = item_id itemObj \<and>
                              durability (stats (entry obj)) = durability (stats itemObj))
                     (sell_list this) of
                Some inventoryItem \<Rightarrow>
                  this\<lparr>sell_list :=
                         update_first (\<lambda>obj. item_id (entry obj) = item_id itemObj \<and>
                              durability (stats (entry obj)) = durability (stats itemObj))
                           (\<lambda>obj. obj\<lparr>shopQuantity := shopQuantity obj + 1\<rparr>)
                           (sell_list this)\<rparr>
              | None \<Rightarrow>
                  this\<lparr>sell_list := sell_list this @
                         [\<lparr>entry = itemObj, shopQuantity = js_or amount 1,
                           expRequired = None\<rparr>]\<rparr>)))"

subsection \<open>buyItem\<close>

definition characterManager_get :: "game \<Rightarrow> string \<Rightarrow> character option" where
  "characterManager_get g uid = characters g uid"

text \<open>\<open>character.stats.exp < item.expRequired\<close>; a comparison with \<open>undefined\<close> is false.\<close>

definition exp_below :: "int \<Rightarrow> int option \<Rightarrow> bool" where
  "exp_below e required = (case required of None \<Rightarrow> False | Some r \<Rightarrow> e < r)"

text \<open>
  The part of \<open>buyItem\<close> after the last check, from \<open>character.updateCash\<close> on.
  \<open>item\<close> is the entry at \<open>itemIndex\<close>; the entry is an object of the list, so the
  decrement is an update of the list at that index. When \<open>getSellList(true)\<close> throws,
  the promise's \<open>catch\<close> logs the error and the rest (the dispatch to the room and the
  \<open>splice\<close>) does not run.
\<close>

definition buyItem_commit ::
  "game \<Rightarrow> string \<Rightarrow> character \<Rightarrow> nat \<Rightarrow> sell_entry \<Rightarrow> item \<Rightarrow> rat \<Rightarrow> item \<Rightarrow> game" where
  "buyItem_commit g uid character0 itemIndex item0 itemTemplate price' itemToAdd =
     (let character1 = updateCash character0 (price' * - 1);
          item1 = (if shopQuantity item0 \<noteq> - 1
                   then item0\<lparr>shopQuantity := shopQuantity item0 - 1\<rparr> else item0);
          character2 = giveItem character1 itemToAdd 1;
          shop1 = (this_shop g)\<lparr>sell_list := (sell_list (this_shop g))[itemIndex := item1]\<rparr>;
          g1 = g\<lparr>characters := (characters g)(uid \<mapsto> character2), this_shop := shop1\<rparr>;
          g2 = emit g1 (UpdateClient (user_id character2));
          g3 = eventToUser g2 (user_id character2) ''success''
                 [S ''You have purchased 1x '', S (item_name itemTemplate), S '' for '', N price'];
          remove = (\<lambda>g'. if shopQuantity item1 \<le> 0
                          then g'\<lparr>this_shop := shop1\<lparr>sell_list := splice1 (sell_list shop1) itemIndex\<rparr>\<rparr>
                          else g')
      in if shopQuantity item1 \<noteq> - 1 then
           (case getSellList (templates g) shop1 of
              Inl err \<Rightarrow> emit g3 (LoggerError err)
            | Inr listing \<Rightarrow>
                remove (emit g3 (DispatchToRoom (getLocationId character2)
                                   (SHOP_UPDATE (shop_id shop1) listing))))
         else remove g3)"

text \<open>
  \<open>buyItem(user_id, index, itemId)\<close>. \<open>index\<close> is the result of \<open>parseInt(index, 10)\<close>
  (\<open>NaN\<close> reads \<open>undefined\<close> from the list, as any index outside it does);
  \<open>hasRoomForItem\<close> is the character's capacity check and \<open>uuid\<close> the fingerprint of
  the instance that \<open>itemManager.add\<close> creates. A rejected character lookup ends in the
  promise's \<open>catch\<close>, which logs it.
\<close>

definition buyItem ::
  "(character \<Rightarrow> item \<Rightarrow> bool) \<Rightarrow> nat \<Rightarrow> game \<Rightarrow> string \<Rightarrow> int \<Rightarrow> string \<Rightarrow> game" where
  "buyItem hasRoomForItem uuid g uid index iid =
     (case characterManager_get g uid of
        None \<Rightarrow> emit g (LoggerError Rejected)
      | Some character0 \<Rightarrow>
          if \<not> sell_enabled (this_shop g) then
            eventToUser g uid ''error'' [S ''They are not selling anything.'']
          else (case js_index (sell_list (this_shop g)) index of
            None \<Rightarrow>
              eventToUser g uid ''error'' [S ''They do not appear to have that item anymore'']
          | Some item0 \<Rightarrow>
              if item_id (entry item0) \<noteq> iid then
                eventToUser g uid ''error'' [S ''The item you where after is no longer available.'']
              else if exp_below (stats_exp character0) (expRequired item0) then
                eventToUser g uid ''error''
                  [S ''You do not have a heigh enough rank to purchase this item.'']
              else (case getTemplate (templates g) (item_id (entry item0)) of
                None \<Rightarrow>
                  eventToUser g uid ''error''
                    [S ''Invalid item. The item might no longer be available.'']
              | Some itemTemplate \<Rightarrow>
                  (let price' = price (stats itemTemplate) * sell_priceMultiplier (this_shop g)
                   in if stats_money character0 < price' then
                        eventToUser g uid ''error'' [S ''You do not have enough money.'']
                      else if shopQuantity item0 < 1 \<and> shopQuantity item0 \<noteq> - 1 then
                        eventToUser g uid ''error''
                          [S ''They do not appear to have that item anymore'']
                      else (case itemManager_add (templates g) uuid (item_id (entry item0))
                                   None None of
                        None \<Rightarrow> emit g (LoggerError TypeError)
                      | Some itemToAdd \<Rightarrow>
                          if \<not> hasRoomForItem character0 itemToAdd then
                            eventToUser g uid ''error''
                              [S ''You do not have enough inventory space for that item.'']
                          else buyItem_commit g uid character0 (nat index) item0 itemTemplate
                                 price' itemToAdd)))))"

text \<open>A buy request, and a sequence of them run one after the other.\<close>

record buy_call =
  call_uuid :: nat
  call_user :: string
  call_index :: int
  call_item :: string

fun buyItems :: "(character \<Rightarrow> item \<Rightarrow> bool) \<Rightarrow> buy_call list \<Rightarrow> game \<Rightarrow> game" where
  "buyItems hasRoomForItem [] g = g"
| "buyItems hasRoomForItem (c # cs) g =
     buyItems hasRoomForItem cs
       (buyItem hasRoomForItem (call_uuid c) g (call_user c) (call_index c) (call_item c))"

subsection \<open>sellItem\<close>

text \<open>
  Modelled from the spec: \<open>Item.removeDurability(amount)\<close> (the item class is not among
  the sources). For a stackable item the durability is the quantity held; it goes down
  by \<open>amount\<close>.
\<close>

definition removeDurability :: "item \<Rightarrow> int \<Rightarrow> item" where
  "removeDurability itemObj amount =
     itemObj\<lparr>stats := (stats itemObj)\<lparr>durability := durability (stats itemObj) - amount\<rparr>\<rparr>"

text \<open>
  \<open>itemManager.remove(character, item)\<close>, up to its first \<open>await\<close>: \<open>item.destroy()\<close>
  marks the item for removal and the \<open>forEach\<close> splices the marked item out of the
  inventory. \<open>index\<close> is the position of \<open>item\<close>, the only marked one.
\<close>

definition itemManager_remove :: "character \<Rightarrow> nat \<Rightarrow> character" where
  "itemManager_remove c index = c\<lparr>inventory := splice1 (inventory c) index\<rparr>"

text \<open>
  The part of \<open>sellItem\<close> after the checks. The sold stack is
  \<open>itemManager.add(item.id, {durability: amount})\<close>, an instance of the template that
  was just looked up under the same id. A throw of \<open>getSellList(true)\<close> is swallowed
  by the promise's empty \<open>catch\<close>.
\<close>

definition sellItem_commit ::
  "nat \<Rightarrow> game \<Rightarrow> string \<Rightarrow> character \<Rightarrow> nat \<Rightarrow> item \<Rightarrow> item \<Rightarrow> game" where
  "sellItem_commit uuid g uid character0 index item0 itemTemplate =
     (let amount = 1;
          pricePerUnit = price (stats itemTemplate) * buy_priceMultiplier (this_shop g);
          soldItem = (if stackable (stats item0)
                      then (new_Item itemTemplate (Some amount) uuid)\<lparr>db_id := None\<rparr>
                      else item0);
          character1 =
            (if stackable (stats item0) then
               (let item1 = removeDurability item0 amount;
                    c1 = character0\<lparr>inventory := (inventory character0)[index := item1]\<rparr>
                in if durability (stats item1) \<le> 0 then itemManager_remove c1 index else c1)
             else character0\<lparr>inventory := splice1 (inventory character0) index\<rparr>);
          character2 = updateCash character1 (of_int amount * pricePerUnit);
          character3 = (if subtype soldItem = ''drug'' then updateExp character2 2
                        else character2);
          shop1 = (if buy_resell (this_shop g) then addToInventory (this_shop g) soldItem None
                   else this_shop g);
          g1 = g\<lparr>characters := (characters g)(uid \<mapsto> character3), this_shop := shop1\<rparr>;
          g2 = eventToUser g1 uid ''success''
                 [S ''You sold 1x '', S (item_name soldItem), S '' for '',
                  N (of_int amount * pricePerUnit)];
          g3 = emit g2 (UpdateClient (user_id character3))
      in case getSellList (templates g) shop1 of
           Inl err \<Rightarrow> g3
         | Inr listing \<Rightarrow>
             emit g3 (DispatchToRoom (getLocationId character3) (SHOP_UPDATE (shop_id shop1) listing)))"

definition sellItem :: "nat \<Rightarrow> game \<Rightarrow> string \<Rightarrow> nat \<Rightarrow> game" where
  "sellItem uuid g uid fp =
     (case characterManager_get g uid of
        None \<Rightarrow> g
      | Some character0 \<Rightarrow>
          if \<not> buy_enabled (this_shop g) then
            eventToUser g uid ''error'' [S ''They are not interested in buying anything.'']
          else (case findIndex (\<lambda>obj. fingerprint obj = fp) (inventory character0) of
            None \<Rightarrow> eventToUser g uid ''error'' [S ''Invalid item.'']
          | Some index \<Rightarrow>
              (let item0 = inventory character0 ! index
               in if buy_list (this_shop g) \<noteq> [] \<and> item_id item0 \<notin> set (buy_list (this_shop g))
                  then eventToUser g uid ''error''
                         [S ''They are not interested in buying that item.'']
                  else if item_type item0 \<in> set (buy_ignoreType (this_shop g)) \<or>
                          subtype item0 \<in> set (buy_ignoreSubtype (this_shop g))
                  then eventToUser g uid ''error''
                         [S ''They are not interested in buying this type of item.'']
                  else if stackable (stats item0) \<and> durability (stats item0) < 1
                  then eventToUser g uid ''error'' [S ''You do not have any more of that item.'']
                  else (case getTemplate (templates g) (item_id item0) of
                          None \<Rightarrow> g
                        | Some itemTemplate \<Rightarrow>
                            sellItem_commit uuid g uid character0 index item0 itemTemplate))))"

subsection \<open>resupply\<close>

text \<open>
  \<open>dice(min, max)\<close> comes from the helper module, which is not among the sources: the
  numbers it returns are a parameter, \<open>dice k min max\<close> for the \<open>k\<close>-th call of a pass,
  and \<open>uuid k\<close> is the fingerprint of the \<open>k\<close>-th instance created. The loop is
  \<open>for (let i = itemsToAdd; i >= 0; i--)\<close>; \<open>k\<close> counts its iterations. Reading
  \<open>supplyItem.id\<close> of an index outside the pool, or setting \<open>shopQuantity\<close> on the
  \<open>null\<close> that \<open>itemManager.add\<close> returns for an unknown id, throws out of \<open>resupply\<close>
  with the sell list as it is by then.
\<close>

function resupply_loop ::
  "(nat \<Rightarrow> int \<Rightarrow> int \<Rightarrow> int) \<Rightarrow> (nat \<Rightarrow> nat) \<Rightarrow> (string \<rightharpoonup> item) \<Rightarrow> bool \<Rightarrow>
   int \<Rightarrow> nat \<Rightarrow> supply_item list \<Rightarrow> int \<Rightarrow> sell_entry list \<Rightarrow> sell_entry list \<times> js_error option" where
  "resupply_loop dice uuid tpls unique i k items totalItems list =
     (if i \<ge> 0 then
        (let index = dice (2 * k + 1) 0 totalItems
         in case js_index items index of
              None \<Rightarrow> (list, Some TypeError)
            | Some supplyItem \<Rightarrow>
                (case itemManager_add tpls (uuid k) (supply_id supplyItem) None None of
                   None \<Rightarrow> (list, Some TypeError)
                 | Some newItem \<Rightarrow>
                     (let q = dice (2 * k + 2) (fst (quantity supplyItem)) (snd (quantity supplyItem));
                          list1 = list @ [\<lparr>entry = newItem, shopQuantity = q, expRequired = None\<rparr>];
                          items1 = (if unique then splice1 items (nat index) else items);
                          totalItems1 = (if unique then int (length items1) else totalItems)
                      in resupply_loop dice uuid tpls unique (i - 1) (Suc k) items1 totalItems1 list1)))
      else (list, None))"
  by pat_completeness auto
termination
  by (relation "measure (\<lambda>(dice, uuid, tpls, unique, i, k, items, totalItems, list). nat (i + 1))") auto

definition resupply ::
  "(nat \<Rightarrow> int \<Rightarrow> int \<Rightarrow> int) \<Rightarrow> (nat \<Rightarrow> nat) \<Rightarrow> (string \<rightharpoonup> item) \<Rightarrow> shop \<Rightarrow> shop \<times> js_error option" where
  "resupply dice uuid tpls this =
     (case shop_supply this of
        None \<Rightarrow> (this, None)
      | Some supply' \<Rightarrow>
          (let kept = filter (\<lambda>item. shopQuantity item = - 1) (sell_list this);
               totalItems = int (length (supply_items supply'));
               itemsToAdd = dice 0 (fst (numberOfItems supply')) (snd (numberOfItems supply'));
               (list1, err) = resupply_loop dice uuid tpls (uniqueItems supply') itemsToAdd 0
                                (supply_items supply') totalItems kept
           in (this\<lparr>sell_list := list1\<rparr>, err)))"

section \<open>Item manager: pickup\<close>

definition getLocationList :: "game \<Rightarrow> string \<Rightarrow> int \<Rightarrow> int \<Rightarrow> item list" where
  "getLocationList g map_id x y =
     (case dropped_items g (map_id, y, x) of None \<Rightarrow> [] | Some location' \<Rightarrow> location')"

datatype pickup_result = Message string | Picked item | Null

text \<open>
  \<open>pickup(map_id, x, y, itemName, amount)\<close>: the returned value and the game after the
  call. \<open>itemName\<close> is \<open>None\<close> when the caller passes none; the empty string is falsy
  too. The list at the location is an array the registry holds, so \<open>splice\<close> and the
  assignment to \<open>foundItem.stats.durability\<close> change the registry. \<open>find_by_name\<close> is
  the search of the \<open>if (itemName)\<close> branch.
\<close>

definition find_by_name :: "item list \<Rightarrow> string \<Rightarrow> nat option" where
  "find_by_name locationItems itemName =
     (let itemName' = toLowerCase itemName
      in case findIndex (\<lambda>obj. toLowerCase (item_name obj) = itemName') locationItems of
           Some i \<Rightarrow> Some i
         | None \<Rightarrow>
             findIndex (\<lambda>obj. indexOf (toLowerCase (item_name obj)) itemName' \<noteq> - 1)
               locationItems)"

definition pickup ::
  "nat \<Rightarrow> game \<Rightarrow> string \<Rightarrow> int \<Rightarrow> int \<Rightarrow> string option \<Rightarrow> int \<Rightarrow> pickup_result \<times> game" where
  "pickup uuid g map_id x y itemName amount =
     (let locationItems = getLocationList g map_id x y;
          store = (\<lambda>items. g\<lparr>dropped_items := (dropped_items g)((map_id, y, x) \<mapsto> items)\<rparr>)
      in if locationItems = [] then (Message ''No items at the location'', g)
         else
           (case (case itemName of
                    None \<Rightarrow> Some 0
                  | Some n \<Rightarrow> if n = [] then Some 0 else find_by_name locationItems n) of
              None \<Rightarrow> (Message ''Item not found'', g)
            | Some foundItemIndex \<Rightarrow>
                (let foundItem = locationItems ! foundItemIndex
                 in if \<not> stackable (stats foundItem)
                    then (Picked foundItem, store (splice1 locationItems foundItemIndex))
                    else if durability (stats foundItem) \<le> amount
                    then (Picked foundItem, store (splice1 locationItems foundItemIndex))
                    else
                      (let ground = foundItem\<lparr>stats := (stats foundItem)\<lparr>durability :=
                                        durability (stats foundItem) - amount\<rparr>\<rparr>;
                           g1 = store (locationItems[foundItemIndex := ground])
                       in case itemManager_add (templates g) uuid (item_id foundItem)
                                 (Some amount) None of
                            None \<Rightarrow> (Null, g1)
                          | Some newItem \<Rightarrow> (Picked newItem, g1)))))"

section \<open>Chat commands\<close>

subsection \<open>Cooldown manager\<close>



subsection \<open>Handlers\<close>




text \<open>
  A socket object: its id and its \<open>user\<close> property. \<open>None\<close> is a socket without
  \<open>user\<close>, \<open>Some None\<close> is \<open>{user_id: undefined}\<close>.
\<close>

record socket =
  socket_id :: nat
  socket_user :: "string option option"








section \<open>User manager: authenticate\<close>

text \<open>
  The socket manager's state: the active-client list, the map manager's list of maps,
  and the effects so far.
\<close>

record sessions =
  clients :: "socket list"
  game_maps :: "string list"
  sent :: "effect list"

text \<open>
  Modelled from the spec: the socket manager is not among the sources.
  \<open>logoutOutSession(socket, user_id)\<close> terminates the session the account already
  has: a remote-logout event is delivered to it and it leaves the active-client list.
  Its promise can be rejected (the source wraps the call in \<open>try\<close>/\<open>catch\<close>);
  \<open>rejects\<close> says whether it is, and then the sessions are as before.
  \<open>add(socket)\<close> registers the socket in the active-client list.
\<close>

definition has_account :: "string option \<Rightarrow> socket \<Rightarrow> bool" where
  "has_account uid c = (uid \<noteq> None \<and> socket_user c = Some uid)"

definition logoutOutSession ::
  "sessions \<Rightarrow> socket \<Rightarrow> string option \<Rightarrow> bool \<Rightarrow> js_error + sessions" where
  "logoutOutSession st socket' uid rejects =
     (if rejects then Inl Rejected
      else Inr (st\<lparr>clients := filter (\<lambda>c. \<not> has_account uid c) (clients st),
                   sent := sent st @
                     map (\<lambda>c. DispatchToSocket (socket_id c) CHARACTER_REMOTE_LOGOUT)
                         (filter (has_account uid) (clients st))\<rparr>))"

definition socketManager_add :: "sessions \<Rightarrow> socket \<Rightarrow> sessions" where
  "socketManager_add st socket' = st\<lparr>clients := clients st @ [socket']\<rparr>"

definition dispatchToSocket :: "sessions \<Rightarrow> socket \<Rightarrow> action \<Rightarrow> sessions" where
  "dispatchToSocket st socket' a = st\<lparr>sent := sent st @ [DispatchToSocket (socket_id socket') a]\<rparr>"

text \<open>
  \<open>authenticate(socket, action)\<close> suspends twice: at \<open>await UserModel.findOneAsync\<close>,
  before it has touched the sessions, and at \<open>await logoutOutSession\<close>, between the
  logout and the registration. \<open>authenticate_begin\<close> is the call from the resolved
  lookup up to the second \<open>await\<close>; it ends either finished or waiting for the logout,
  with the \<open>user_id\<close> it will register and the rejection it will catch.
  \<open>payload\<close> is \<open>action.payload\<close> (missing or empty is falsy); \<open>decoded\<close> is what
  \<open>jwt.verify\<close> hands to its callback (\<open>None\<close> for an error); \<open>found\<close> is the outcome
  of the lookup: it throws, or finds no user, or gives the user's id. After a throw of
  the lookup the code goes on with an undefined \<open>user_id\<close>, as the source does.
\<close>

datatype auth_pending = Finished | AwaitingLogout "string option" "js_error option"

definition authenticate_begin ::
  "sessions \<Rightarrow> socket \<Rightarrow> string option \<Rightarrow> (string \<times> string) option \<Rightarrow>
   js_error + string option \<Rightarrow> bool \<Rightarrow> sessions \<times> auth_pending" where
  "authenticate_begin st socket' payload decoded found rejects =
     (if payload = None \<or> payload = Some [] then (st, Finished)
      else (case decoded of
        None \<Rightarrow>
          (dispatchToSocket st socket'
             (USER_AUTHENTICATE_ERROR ''Invalid authentication token. Please try again.''),
           Finished)
      | Some d \<Rightarrow>
          (case found of
             Inr None \<Rightarrow>
               (dispatchToSocket st socket'
                  (USER_AUTHENTICATE_ERROR ''Invalid authentication token. Please try again.''),
                Finished)
           | _ \<Rightarrow>
               (let uid = (case found of Inr (Some u) \<Rightarrow> Some u | _ \<Rightarrow> None);
                    st1 = (case found of Inl err \<Rightarrow> st\<lparr>sent := sent st @ [OnError err]\<rparr> | _ \<Rightarrow> st)
                in case logoutOutSession st1 socket' uid rejects of
                     Inl err \<Rightarrow> (st1, AwaitingLogout uid (Some err))
                   | Inr st' \<Rightarrow> (st', AwaitingLogout uid None)))))"

text \<open>
  The rest of \<open>authenticate\<close>, run when the awaited logout has settled: a rejection
  goes to \<open>Game.onError\<close> and the code goes on; the socket is tagged with the user id,
  registered, and sent the success action. Returns the state and the socket as tagged.
\<close>

definition authenticate_resume ::
  "sessions \<Rightarrow> socket \<Rightarrow> string option \<Rightarrow> js_error option \<Rightarrow> sessions \<times> socket" where
  "authenticate_resume st socket' uid rejection =
     (let st2 = (case rejection of
                   Some err \<Rightarrow> st\<lparr>sent := sent st @ [OnError err]\<rparr>
                 | None \<Rightarrow> st);
          tagged = socket'\<lparr>socket_user := Some uid\<rparr>;
          st3 = socketManager_add st2 tagged
      in (dispatchToSocket st3 tagged (USER_AUTHENTICATE_SUCCESS (game_maps st3)), tagged))"

text \<open>A call of \<open>authenticate\<close> with nothing else running between its two parts.\<close>

definition authenticate ::
  "sessions \<Rightarrow> socket \<Rightarrow> string option \<Rightarrow> (string \<times> string) option \<Rightarrow>
   js_error + string option \<Rightarrow> bool \<Rightarrow> sessions \<times> socket" where
  "authenticate st socket' payload decoded found rejects =
     (case authenticate_begin st socket' payload decoded found rejects of
        (st1, Finished) \<Rightarrow> (st1, socket')
      | (st1, AwaitingLogout uid rejection) \<Rightarrow> authenticate_resume st1 socket' uid rejection)"

text \<open>The accounts of the registered sessions, one entry per authenticated socket.\<close>

definition session_accounts :: "socket list \<Rightarrow> string list" where
  "session_accounts cs =
     List.map_filter (\<lambda>c. case socket_user c of Some (Some u) \<Rightarrow> Some u | _ \<Rightarrow> None) cs"

definition one_session_per_account :: "sessions \<Rightarrow> bool" where
  "one_session_per_account st = distinct (session_accounts (clients st))"

section \<open>Predicates of the statements\<close>

text \<open>At most one sell-list entry per stackable item id.\<close>

definition stack_unique :: "sell_entry list \<Rightarrow> bool" where
  "stack_unique list =
     distinct (map item_id (filter (\<lambda>obj. stackable (stats obj)) (map entry list)))"

text \<open>
  The guards of \<open>buyItem\<close> up to the stock check, all passed: the character \<open>c\<close> is
  found, the shop sells, the entry \<open>e\<close> at the index has the expected id, the rank
  and the template \<open>t\<close> are there, and the cash covers the price.
\<close>

definition buy_checks_pass ::
  "game \<Rightarrow> string \<Rightarrow> int \<Rightarrow> string \<Rightarrow> character \<Rightarrow> sell_entry \<Rightarrow> item \<Rightarrow> bool" where
  "buy_checks_pass g uid index iid c e t =
     (characterManager_get g uid = Some c \<and>
      sell_enabled (this_shop g) \<and>
      js_index (sell_list (this_shop g)) index = Some e \<and>
      item_id (entry e) = iid \<and>
      \<not> exp_below (stats_exp c) (expRequired e) \<and>
      getTemplate (templates g) (item_id (entry e)) = Some t \<and>
      \<not> stats_money c < price (stats t) * sell_priceMultiplier (this_shop g))"

text \<open>Every entry with finite stock has a stock of at least 0.\<close>

definition finite_stock_nonneg :: "sell_entry list \<Rightarrow> bool" where
  "finite_stock_nonneg list = (\<forall>e\<in>set list. shopQuantity e \<noteq> - 1 \<longrightarrow> 0 \<le> shopQuantity e)"

text \<open>Every entry of the sell list has a template, so \<open>getSellList(true)\<close> does not throw.\<close>

definition all_have_template :: "(string \<rightharpoonup> item) \<Rightarrow> sell_entry list \<Rightarrow> bool" where
  "all_have_template tpls list = (\<forall>e\<in>set list. getTemplate tpls (item_id (entry e)) \<noteq> None)"

section \<open>Example data\<close>

definition ex_bread :: item where
  "ex_bread = \<lparr>item_id = ''bread'', item_name = ''Bread'', item_type = ''consumable'',
     subtype = ''food'', stats = \<lparr>price = 5, stackable = False, durability = 1\<rparr>,
     fingerprint = 0, db_id = None\<rparr>"

definition ex_knife :: item where
  "ex_knife = \<lparr>item_id = ''knife'', item_name = ''Iron Knife'', item_type = ''weapon'',
     subtype = ''melee'', stats = \<lparr>price = 20, stackable = False, durability = 100\<rparr>,
     fingerprint = 1, db_id = None\<rparr>"

definition ex_hash :: item where
  "ex_hash = \<lparr>item_id = ''hash'', item_name = ''Hash'', item_type = ''consumable'',
     subtype = ''drug'', stats = \<lparr>price = 8, stackable = True, durability = 3\<rparr>,
     fingerprint = 2, db_id = None\<rparr>"

definition ex_templates :: "string \<rightharpoonup> item" where
  "ex_templates = [''bread'' \<mapsto> ex_bread, ''knife'' \<mapsto> ex_knife, ''hash'' \<mapsto> ex_hash]"

definition ex_shop :: shop where
  "ex_shop = \<lparr>shop_id = ''bakery'', shop_name = ''Bakery'', sell_enabled = True,
     sell_priceMultiplier = 1,
     sell_list = [\<lparr>entry = ex_bread, shopQuantity = 1, expRequired = Some 0\<rparr>],
     buy_enabled = True, buy_priceMultiplier = 1, buy_list = [], buy_ignoreType = [],
     buy_ignoreSubtype = [], buy_resell = True, shop_supply = None\<rparr>"

definition ex_actor :: character where
  "ex_actor = \<lparr>user_id = ''u1'', char_name = ''Ann'', stats_exp = 0, stats_money = 10,
     inventory = [], location = (''london'', 1, 2)\<rparr>"

definition ex_game :: game where
  "ex_game = \<lparr>templates = ex_templates, dropped_items = Map.empty,
     characters = [''u1'' \<mapsto> ex_actor], this_shop = ex_shop, cooldowns = Map.empty,
     cooldown_default = (\<lambda>key. 20), effects = []\<rparr>"

text \<open>A capacity check for the examples: an inventory holds at most two items.\<close>

definition ex_hasRoom :: "character \<Rightarrow> item \<Rightarrow> bool" where
  "ex_hasRoom c itemObj = (length (inventory c) < 2)"

definition ex_supply_shop :: shop where
  "ex_supply_shop = ex_shop\<lparr>
     sell_list := [\<lparr>entry = ex_bread, shopQuantity = 1, expRequired = Some 0\<rparr>,
                   \<lparr>entry = ex_knife, shopQuantity = - 1, expRequired = Some 0\<rparr>],
     shop_supply := Some \<lparr>supply_items = [\<lparr>supply_id = ''bread'', quantity = (2, 2)\<rparr>],
                          numberOfItems = (1, 1), uniqueItems = False\<rparr>\<rparr>"

text \<open>A dice that always rolls the minimum, and the fingerprints 100, 101, ...\<close>

definition ex_dice :: "nat \<Rightarrow> int \<Rightarrow> int \<Rightarrow> int" where
  "ex_dice k lo hi = lo"

definition ex_uuid :: "nat \<Rightarrow> nat" where
  "ex_uuid k = 100 + k"

text \<open>A knife lying on the ground in London.\<close>

definition ex_ground :: game where
  "ex_ground = ex_game\<lparr>dropped_items := [(''london'', 1, 2) \<mapsto> [ex_knife]]\<rparr>"












lemmas ex_defs = ex_bread_def ex_knife_def ex_hash_def ex_templates_def ex_shop_def
  ex_actor_def ex_game_def ex_hasRoom_def

section \<open>Shop: addToInventory\<close>

lemma update_first_nth:
  "\<exists>x\<in>set xs. p x \<Longrightarrow>
   \<exists>i<length xs. p (xs ! i) \<and> (\<forall>j<i. \<not> p (xs ! j)) \<and> update_first p f xs = xs[i := f (xs ! i)]"
proof (induction xs)
  case Nil
  then show ?case by simp
next
  case (Cons x xs)
  show ?case
  proof (cases "p x")
    case True
    then show ?thesis by (intro exI[of _ 0]) simp
  next
    case False
    with Cons.prems have "\<exists>x\<in>set xs. p x" by simp
    from Cons.IH[OF this] obtain i where i: "i < length xs" "p (xs ! i)"
      "\<forall>j<i. \<not> p (xs ! j)" "update_first p f xs = xs[i := f (xs ! i)]" by blast
    show ?thesis
    proof (intro exI[of _ "Suc i"] conjI allI impI)
      fix j assume "j < Suc i"
      then show "\<not> p ((x # xs) ! j)" using False i(3) by (cases j) auto
    qed (use i False in simp_all)
  qed
qed

lemma find_Some_ex: "(\<exists>y. find p xs = Some y) \<longleftrightarrow> (\<exists>x\<in>set xs. p x)"
  by (induction xs) auto

text \<open>
  Claim C6. For a non-stackable item merged into the sell list by \<open>addToInventory\<close>:
  if an entry with the same id and \<open>shopQuantity\<close> \<open>-1\<close> exists, the shop is unchanged;
  else if an entry with the same id and the same durability exists, the first such entry
  has its \<open>shopQuantity\<close> increased by exactly 1 and the list is otherwise as before
  (nothing is pushed); otherwise the instance is pushed with \<open>shopQuantity = amount || 1\<close>:
  the given amount, and 1 when the amount is \<open>null\<close> or 0.
\<close>

theorem addToInventory_non_stackable:
  assumes "\<not> stackable (stats itemObj)"
  shows "(if \<exists>obj\<in>set (sell_list this). item_id (entry obj) = item_id itemObj \<and> shopQuantity obj = - 1
          then addToInventory this itemObj amount = this
          else if \<exists>obj\<in>set (sell_list this). item_id (entry obj) = item_id itemObj \<and>
                    durability (stats (entry obj)) = durability (stats itemObj)
          then \<exists>i<length (sell_list this).
                 item_id (entry (sell_list this ! i)) = item_id itemObj \<and>
                 durability (stats (entry (sell_list this ! i))) = durability (stats itemObj) \<and>
                 (\<forall>j<i. \<not> (item_id (entry (sell_list this ! j)) = item_id itemObj \<and>
                      durability (stats (entry (sell_list this ! j))) = durability (stats itemObj))) \<and>
                 addToInventory this itemObj amount =
                   this\<lparr>sell_list := (sell_list this)[i := (sell_list this ! i)
                           \<lparr>shopQuantity := shopQuantity (sell_list this ! i) + 1\<rparr>]\<rparr>
          else addToInventory this itemObj amount =
                 this\<lparr>sell_list := sell_list this @
                   [\<lparr>entry = itemObj,
                     shopQuantity = (case amount of None \<Rightarrow> 1 | Some a \<Rightarrow> if a = 0 then 1 else a),
                     expRequired = None\<rparr>]\<rparr>)"
proof -
  let ?inf = "\<lambda>obj. item_id (entry obj) = item_id itemObj \<and> shopQuantity obj = - 1"
  let ?same = "\<lambda>obj. item_id (entry obj) = item_id itemObj \<and>
                  durability (stats (entry obj)) = durability (stats itemObj)"
  consider (a) "\<exists>obj\<in>set (sell_list this). ?inf obj"
    | (b) "\<not> (\<exists>obj\<in>set (sell_list this). ?inf obj)" "\<exists>obj\<in>set (sell_list this). ?same obj"
    | (c) "\<not> (\<exists>obj\<in>set (sell_list this). ?inf obj)" "\<not> (\<exists>obj\<in>set (sell_list this). ?same obj)"
    by blast
  then show ?thesis
  proof cases
    case a
    then obtain y where "find ?inf (sell_list this) = Some y"
      using find_Some_ex[of ?inf "sell_list this"] by blast
    with assms have eq: "addToInventory this itemObj amount = this"
      by (simp add: addToInventory_def)
    show ?thesis by (simp only: a if_True eq)
  next
    case b
    from b(1) have n: "find ?inf (sell_list this) = None" by (simp add: find_None_iff)
    from b(2) obtain y where s: "find ?same (sell_list this) = Some y"
      using find_Some_ex[of ?same "sell_list this"] by blast
    from update_first_nth[OF b(2), of "\<lambda>obj. obj\<lparr>shopQuantity := shopQuantity obj + 1\<rparr>"]
    obtain i where i: "i < length (sell_list this)" "?same (sell_list this ! i)"
      "\<forall>j<i. \<not> ?same (sell_list this ! j)"
      "update_first ?same (\<lambda>obj. obj\<lparr>shopQuantity := shopQuantity obj + 1\<rparr>) (sell_list this)
         = (sell_list this)[i := (sell_list this ! i)\<lparr>shopQuantity := shopQuantity (sell_list this ! i) + 1\<rparr>]"
      by blast
    have eq: "addToInventory this itemObj amount =
            this\<lparr>sell_list := (sell_list this)[i := (sell_list this ! i)
                    \<lparr>shopQuantity := shopQuantity (sell_list this ! i) + 1\<rparr>]\<rparr>"
      using assms n s i(4) by (simp add: addToInventory_def)
    have "\<exists>i<length (sell_list this).
                 item_id (entry (sell_list this ! i)) = item_id itemObj \<and>
                 durability (stats (entry (sell_list this ! i))) = durability (stats itemObj) \<and>
                 (\<forall>j<i. \<not> (item_id (entry (sell_list this ! j)) = item_id itemObj \<and>
                      durability (stats (entry (sell_list this ! j))) = durability (stats itemObj))) \<and>
                 addToInventory this itemObj amount =
                   this\<lparr>sell_list := (sell_list this)[i := (sell_list this ! i)
                           \<lparr>shopQuantity := shopQuantity (sell_list this ! i) + 1\<rparr>]\<rparr>"
      using i(1,2,3) eq by blast
    then show ?thesis by (simp only: b if_True if_False)
  next
    case c
    from c(1) have n: "find ?inf (sell_list this) = None" by (simp add: find_None_iff)
    from c(2) have n2: "find ?same (sell_list this) = None" by (simp add: find_None_iff)
    have "js_or amount 1 = (case amount of None \<Rightarrow> 1 | Some a \<Rightarrow> if a = 0 then 1 else a)"
      by (simp add: js_or_def)
    with assms n n2 have eq: "addToInventory this itemObj amount =
                 this\<lparr>sell_list := sell_list this @
                   [\<lparr>entry = itemObj,
                     shopQuantity = (case amount of None \<Rightarrow> 1 | Some a \<Rightarrow> if a = 0 then 1 else a),
                     expRequired = None\<rparr>]\<rparr>"
      by (simp add: addToInventory_def)
    show ?thesis by (simp only: c if_False eq)
  qed
qed


text \<open>The three cases of C6 on a knife: unlimited entry, same durability, new entry.\<close>

theorem addToInventory_non_stackable_witness:
  "\<not> stackable (stats ex_knife) \<and>
   addToInventory (ex_shop\<lparr>sell_list := [\<lparr>entry = ex_knife, shopQuantity = - 1, expRequired = None\<rparr>]\<rparr>)
       ex_knife None
     = ex_shop\<lparr>sell_list := [\<lparr>entry = ex_knife, shopQuantity = - 1, expRequired = None\<rparr>]\<rparr> \<and>
   addToInventory (ex_shop\<lparr>sell_list := [\<lparr>entry = ex_knife, shopQuantity = 2, expRequired = None\<rparr>]\<rparr>)
       (ex_knife\<lparr>fingerprint := 9\<rparr>) None
     = ex_shop\<lparr>sell_list := [\<lparr>entry = ex_knife, shopQuantity = 3, expRequired = None\<rparr>]\<rparr> \<and>
   addToInventory ex_shop ex_knife None
     = ex_shop\<lparr>sell_list := [\<lparr>entry = ex_bread, shopQuantity = 1, expRequired = Some 0\<rparr>,
                             \<lparr>entry = ex_knife, shopQuantity = 1, expRequired = None\<rparr>]\<rparr>"
  using addToInventory_non_stackable
          [of ex_knife "ex_shop\<lparr>sell_list := [\<lparr>entry = ex_knife, shopQuantity = - 1, expRequired = None\<rparr>]\<rparr>" None]
        addToInventory_non_stackable
          [of "ex_knife\<lparr>fingerprint := 9\<rparr>" "ex_shop\<lparr>sell_list := [\<lparr>entry = ex_knife, shopQuantity = 2, expRequired = None\<rparr>]\<rparr>" None]
        addToInventory_non_stackable [of ex_knife ex_shop None]
  by (simp add: ex_defs)

lemma map_entry_update_first:
  "(\<And>x. entry (f x) = entry x) \<Longrightarrow> map entry (update_first p f xs) = map entry xs"
  by (induction xs) auto

lemma addToInventory_stack_unique:
  assumes "stack_unique (sell_list this)"
  shows "stack_unique (sell_list (addToInventory this itemObj amount))"
proof (cases "stackable (stats itemObj)")
  case True
  show ?thesis
  proof (cases "find (\<lambda>obj. item_id (entry obj) = item_id itemObj) (sell_list this)")
    case None
    then have "item_id itemObj \<notin> item_id ` entry ` set (sell_list this)"
      by (auto simp: find_None_iff)
    with assms True None show ?thesis
      by (auto simp: addToInventory_def stack_unique_def Let_def)
  next
    case (Some y)
    with assms True show ?thesis
      by (simp add: addToInventory_def stack_unique_def Let_def map_entry_update_first)
  qed
next
  case False
  with assms show ?thesis
    by (auto simp: addToInventory_def stack_unique_def map_entry_update_first
             split: option.splits)
qed

text \<open>
  Claim C10. For a stackable item passed to \<open>addToInventory\<close>: if the sell list holds
  an entry with the same item id, no entry is pushed, and the first such entry has its
  \<open>shopQuantity\<close> increased by \<open>amount || durability\<close> (the given amount, and the
  incoming instance's durability when the amount is \<open>null\<close> or 0); otherwise the
  instance is pushed with that quantity. And \<open>addToInventory\<close>, for any item, keeps
  the sell list at no more than one entry per stackable item id.
\<close>

theorem addToInventory_stackable:
  "(stackable (stats itemObj) \<longrightarrow>
     (if \<exists>obj\<in>set (sell_list this). item_id (entry obj) = item_id itemObj
      then \<exists>i<length (sell_list this).
             item_id (entry (sell_list this ! i)) = item_id itemObj \<and>
             (\<forall>j<i. item_id (entry (sell_list this ! j)) \<noteq> item_id itemObj) \<and>
             addToInventory this itemObj amount =
               this\<lparr>sell_list := (sell_list this)[i := (sell_list this ! i)
                 \<lparr>shopQuantity := shopQuantity (sell_list this ! i) +
                    (case amount of None \<Rightarrow> durability (stats itemObj)
                     | Some a \<Rightarrow> if a = 0 then durability (stats itemObj) else a)\<rparr>]\<rparr>
      else addToInventory this itemObj amount =
             this\<lparr>sell_list := sell_list this @
               [\<lparr>entry = itemObj,
                 shopQuantity = (case amount of None \<Rightarrow> durability (stats itemObj)
                     | Some a \<Rightarrow> if a = 0 then durability (stats itemObj) else a),
                 expRequired = None\<rparr>]\<rparr>)) \<and>
   (stack_unique (sell_list this) \<longrightarrow>
      stack_unique (sell_list (addToInventory this itemObj amount)))"
proof (intro conjI impI)
  show "stack_unique (sell_list (addToInventory this itemObj amount))"
    if "stack_unique (sell_list this)"
    using that by (rule addToInventory_stack_unique)
next
  assume st: "stackable (stats itemObj)"
  let ?same = "\<lambda>obj. item_id (entry obj) = item_id itemObj"
  let ?n = "case amount of None \<Rightarrow> durability (stats itemObj)
                     | Some a \<Rightarrow> if a = 0 then durability (stats itemObj) else a"
  have n: "js_or amount (durability (stats itemObj)) = ?n" by (simp add: js_or_def)
  show "if \<exists>obj\<in>set (sell_list this). ?same obj
      then \<exists>i<length (sell_list this).
             item_id (entry (sell_list this ! i)) = item_id itemObj \<and>
             (\<forall>j<i. item_id (entry (sell_list this ! j)) \<noteq> item_id itemObj) \<and>
             addToInventory this itemObj amount =
               this\<lparr>sell_list := (sell_list this)[i := (sell_list this ! i)
                 \<lparr>shopQuantity := shopQuantity (sell_list this ! i) + ?n\<rparr>]\<rparr>
      else addToInventory this itemObj amount =
             this\<lparr>sell_list := sell_list this @
               [\<lparr>entry = itemObj, shopQuantity = ?n, expRequired = None\<rparr>]\<rparr>"
  proof (cases "\<exists>obj\<in>set (sell_list this). ?same obj")
    case True
    then obtain y where s: "find ?same (sell_list this) = Some y"
      using find_Some_ex[of ?same "sell_list this"] by blast
    from update_first_nth[OF True, of "\<lambda>obj. obj\<lparr>shopQuantity := shopQuantity obj + ?n\<rparr>"]
    obtain i where i: "i < length (sell_list this)" "?same (sell_list this ! i)"
      "\<forall>j<i. \<not> ?same (sell_list this ! j)"
      "update_first ?same (\<lambda>obj. obj\<lparr>shopQuantity := shopQuantity obj + ?n\<rparr>) (sell_list this)
         = (sell_list this)[i := (sell_list this ! i)\<lparr>shopQuantity := shopQuantity (sell_list this ! i) + ?n\<rparr>]"
      by blast
    have eq: "addToInventory this itemObj amount =
               this\<lparr>sell_list := (sell_list this)[i := (sell_list this ! i)
                 \<lparr>shopQuantity := shopQuantity (sell_list this ! i) + ?n\<rparr>]\<rparr>"
      using st s i(4) n by (simp add: addToInventory_def)
    have "\<exists>i<length (sell_list this).
             item_id (entry (sell_list this ! i)) = item_id itemObj \<and>
             (\<forall>j<i. item_id (entry (sell_list this ! j)) \<noteq> item_id itemObj) \<and>
             addToInventory this itemObj amount =
               this\<lparr>sell_list := (sell_list this)[i := (sell_list this ! i)
                 \<lparr>shopQuantity := shopQuantity (sell_list this ! i) + ?n\<rparr>]\<rparr>"
      using i(1,2,3) eq by blast
    then show ?thesis by (simp only: True if_True)
  next
    case False
    then have s: "find ?same (sell_list this) = None" by (simp add: find_None_iff)
    have eq: "addToInventory this itemObj amount =
             this\<lparr>sell_list := sell_list this @
               [\<lparr>entry = itemObj, shopQuantity = ?n, expRequired = None\<rparr>]\<rparr>"
      using st s n by (simp add: addToInventory_def)
    show ?thesis by (simp only: False if_False eq)
  qed
qed

text \<open>C10 on a shop that already sells hash: 4 in stock, 3 more come in.\<close>

theorem addToInventory_stackable_witness:
  "stackable (stats ex_hash) \<and>
   stack_unique [\<lparr>entry = ex_hash, shopQuantity = 4, expRequired = None\<rparr>] \<and>
   addToInventory (ex_shop\<lparr>sell_list := [\<lparr>entry = ex_hash, shopQuantity = 4, expRequired = None\<rparr>]\<rparr>)
       (ex_hash\<lparr>fingerprint := 9\<rparr>) None
     = ex_shop\<lparr>sell_list := [\<lparr>entry = ex_hash, shopQuantity = 7, expRequired = None\<rparr>]\<rparr> \<and>
   stack_unique (sell_list (addToInventory
       (ex_shop\<lparr>sell_list := [\<lparr>entry = ex_hash, shopQuantity = 4, expRequired = None\<rparr>]\<rparr>)
       (ex_hash\<lparr>fingerprint := 9\<rparr>) None))"
  using addToInventory_stackable
          [of "ex_hash\<lparr>fingerprint := 9\<rparr>"
              "ex_shop\<lparr>sell_list := [\<lparr>entry = ex_hash, shopQuantity = 4, expRequired = None\<rparr>]\<rparr>" None]
  by (simp add: ex_defs stack_unique_def)

section \<open>Shop: buyItem\<close>

lemma buyItem_reaches_capacity_check:
  assumes "buy_checks_pass g uid index iid c e t"
    and "shopQuantity e = - 1 \<or> 1 \<le> shopQuantity e"
  shows "buyItem hasRoomForItem uuid g uid index iid =
           (if \<not> hasRoomForItem c ((new_Item t None uuid)\<lparr>db_id := None\<rparr>)
            then eventToUser g uid ''error''
                   [S ''You do not have enough inventory space for that item.'']
            else buyItem_commit g uid c (nat index) e t
                   (price (stats t) * sell_priceMultiplier (this_shop g))
                   ((new_Item t None uuid)\<lparr>db_id := None\<rparr>))"
  using assms
  by (auto simp: buy_checks_pass_def buyItem_def itemManager_add_def Let_def)

text \<open>
  Claim C1. When the shop sells, the entry at the index exists with the expected id,
  the actor's experience and cash suffice, the template exists and stock is available
  (unlimited, or at least 1), but the actor has no room for the new instance:
  \<open>buyItem\<close> emits the one error event about inventory space and changes nothing
  else: the characters (so the actor's cash and inventory) and the shop (so the
  entry's \<open>shopQuantity\<close>) are as before.
\<close>

theorem buyItem_no_inventory_space:
  assumes "buy_checks_pass g uid index iid c e t"
    and "shopQuantity e = - 1 \<or> 1 \<le> shopQuantity e"
    and "\<not> hasRoomForItem c ((new_Item t None uuid)\<lparr>db_id := None\<rparr>)"
  shows "buyItem hasRoomForItem uuid g uid index iid =
           g\<lparr>effects := effects g @
                [DispatchToUser uid (GAME_EVENT ''error''
                   [S ''You do not have enough inventory space for that item.''] [])]\<rparr> \<and>
         characters (buyItem hasRoomForItem uuid g uid index iid) uid = Some c \<and>
         characters (buyItem hasRoomForItem uuid g uid index iid) = characters g \<and>
         this_shop (buyItem hasRoomForItem uuid g uid index iid) = this_shop g \<and>
         js_index (sell_list (this_shop (buyItem hasRoomForItem uuid g uid index iid))) index = Some e"
  using assms buyItem_reaches_capacity_check[OF assms(1,2), of hasRoomForItem uuid]
  by (simp add: eventToUser_def emit_def newEvent_def buy_checks_pass_def characterManager_get_def)

text \<open>C1 on an actor whose two inventory slots are taken.\<close>

theorem buyItem_no_inventory_space_witness:
  "buy_checks_pass (ex_game\<lparr>characters := [''u1'' \<mapsto> ex_actor\<lparr>inventory := [ex_knife, ex_hash]\<rparr>]\<rparr>)
      ''u1'' 0 ''bread'' (ex_actor\<lparr>inventory := [ex_knife, ex_hash]\<rparr>)
      \<lparr>entry = ex_bread, shopQuantity = 1, expRequired = Some 0\<rparr> ex_bread \<and>
   \<not> ex_hasRoom (ex_actor\<lparr>inventory := [ex_knife, ex_hash]\<rparr>) ((new_Item ex_bread None 7)\<lparr>db_id := None\<rparr>) \<and>
   buyItem ex_hasRoom 7
       (ex_game\<lparr>characters := [''u1'' \<mapsto> ex_actor\<lparr>inventory := [ex_knife, ex_hash]\<rparr>]\<rparr>)
       ''u1'' 0 ''bread''
     = ex_game\<lparr>characters := [''u1'' \<mapsto> ex_actor\<lparr>inventory := [ex_knife, ex_hash]\<rparr>],
               effects := [DispatchToUser ''u1'' (GAME_EVENT ''error''
                   [S ''You do not have enough inventory space for that item.''] [])]\<rparr>"
proof -
  let ?c = "ex_actor\<lparr>inventory := [ex_knife, ex_hash]\<rparr>"
  let ?g = "ex_game\<lparr>characters := [''u1'' \<mapsto> ?c]\<rparr>"
  let ?e = "\<lparr>entry = ex_bread, shopQuantity = 1, expRequired = Some 0\<rparr>"
  have ok: "buy_checks_pass ?g ''u1'' 0 ''bread'' ?c ?e ex_bread"
    by (simp add: buy_checks_pass_def ex_defs characterManager_get_def js_index_def
          exp_below_def getTemplate_def toLowerCase_def lower_char_def)
  have st: "shopQuantity ?e = - 1 \<or> 1 \<le> shopQuantity ?e" by simp
  have full: "\<not> ex_hasRoom ?c ((new_Item ex_bread None 7)\<lparr>db_id := None\<rparr>)"
    by (simp add: ex_defs)
  from buyItem_no_inventory_space[where hasRoomForItem = ex_hasRoom and uuid = 7, OF ok st full]
    ok full show ?thesis
    by (simp add: ex_game_def)
qed

lemma splice1_update: "splice1 (xs[i := x]) i = splice1 xs i"
  by (simp add: splice1_def)

lemma set_splice1: "set (splice1 xs i) \<subseteq> set xs"
  unfolding splice1_def using set_take_subset[of i xs] set_drop_subset[of "Suc i" xs] by auto

lemma js_index_Some: "js_index xs i = Some x \<Longrightarrow> nat i < length xs \<and> xs ! nat i = x \<and> 0 \<le> i"
  by (auto simp: js_index_def split: if_splits)

lemma export_entries_total:
  "all_have_template tpls list \<Longrightarrow> \<exists>listing. export_entries tpls list = Inr listing"
  by (induction list) (auto simp: all_have_template_def)

lemma all_have_template_update:
  assumes "all_have_template tpls list" "i < length list" "entry x = entry (list ! i)"
  shows "all_have_template tpls (list[i := x])"
  unfolding all_have_template_def
proof
  fix e assume "e \<in> set (list[i := x])"
  then have "e = x \<or> e \<in> set list" using set_update_subset_insert[of list i x] by auto
  then show "getTemplate tpls (item_id (entry e)) \<noteq> None"
    using assms nth_mem[OF assms(2)] by (auto simp: all_have_template_def)
qed

text \<open>The sell list after the commit part: the entry updated, and pruned or not.\<close>

lemma buyItem_commit_sell_list:
  "sell_list (this_shop (buyItem_commit g uid c i e t p a)) \<in>
     {(sell_list (this_shop g))[i := (if shopQuantity e \<noteq> - 1
                                       then e\<lparr>shopQuantity := shopQuantity e - 1\<rparr> else e)],
      splice1 (sell_list (this_shop g)) i}"
  by (simp add: buyItem_commit_def Let_def emit_def eventToUser_def splice1_update
           split: sum.splits)

text \<open>Every run of \<open>buyItem\<close> either only emits one effect or reaches the commit part.\<close>

lemma buyItem_error_or_commit:
  "(\<exists>x. buyItem h u g uid index iid = emit g x) \<or>
   (\<exists>c e t. buy_checks_pass g uid index iid c e t \<and>
            (shopQuantity e = - 1 \<or> 1 \<le> shopQuantity e) \<and>
            h c ((new_Item t None u)\<lparr>db_id := None\<rparr>) \<and>
            buyItem h u g uid index iid =
              buyItem_commit g uid c (nat index) e t
                (price (stats t) * sell_priceMultiplier (this_shop g))
                ((new_Item t None u)\<lparr>db_id := None\<rparr>))"
proof (cases "characterManager_get g uid")
  case None
  then have "\<exists>x. buyItem h u g uid index iid = emit g x"
    by (auto simp: buyItem_def)
  then show ?thesis by blast
next
  case c: (Some c)
  show ?thesis
  proof (cases "sell_enabled (this_shop g)")
    case False
    with c have "\<exists>x. buyItem h u g uid index iid = emit g x"
      by (auto simp: buyItem_def eventToUser_def)
    then show ?thesis by blast
  next
    case en: True
    show ?thesis
    proof (cases "js_index (sell_list (this_shop g)) index")
      case None
      with c en have "\<exists>x. buyItem h u g uid index iid = emit g x"
        by (auto simp: buyItem_def eventToUser_def)
      then show ?thesis by blast
    next
      case e: (Some e)
      show ?thesis
      proof (cases "item_id (entry e) \<noteq> iid \<or> exp_below (stats_exp c) (expRequired e)")
        case True
        with c en e have "\<exists>x. buyItem h u g uid index iid = emit g x"
          by (auto simp: buyItem_def eventToUser_def)
        then show ?thesis by blast
      next
        case idexp: False
        show ?thesis
        proof (cases "getTemplate (templates g) (item_id (entry e))")
          case None
          with c en e idexp have "\<exists>x. buyItem h u g uid index iid = emit g x"
            by (auto simp: buyItem_def eventToUser_def)
          then show ?thesis by blast
        next
          case t: (Some t)
          show ?thesis
          proof (cases "stats_money c < price (stats t) * sell_priceMultiplier (this_shop g) \<or>
                        (shopQuantity e < 1 \<and> shopQuantity e \<noteq> - 1)")
            case True
            with c en e idexp t have "\<exists>x. buyItem h u g uid index iid = emit g x"
              by (auto simp: buyItem_def eventToUser_def Let_def)
            then show ?thesis by blast
          next
            case False
            with c en e idexp t have ok: "buy_checks_pass g uid index iid c e t"
              and st: "shopQuantity e = - 1 \<or> 1 \<le> shopQuantity e"
              by (auto simp: buy_checks_pass_def)
            show ?thesis
            proof (cases "h c ((new_Item t None u)\<lparr>db_id := None\<rparr>)")
              case True
              with buyItem_reaches_capacity_check[OF ok st, of h u] ok st show ?thesis
                by auto
            next
              case False
              with buyItem_reaches_capacity_check[OF ok st, of h u]
              have "\<exists>x. buyItem h u g uid index iid = emit g x"
                by (auto simp: eventToUser_def)
              then show ?thesis by blast
            qed
          qed
        qed
      qed
    qed
  qed
qed

lemma buyItem_shop_cases:
  "this_shop (buyItem h u g uid index iid) = this_shop g \<or>
   (\<exists>c e t. buy_checks_pass g uid index iid c e t \<and>
            (shopQuantity e = - 1 \<or> 1 \<le> shopQuantity e) \<and>
            buyItem h u g uid index iid =
              buyItem_commit g uid c (nat index) e t
                (price (stats t) * sell_priceMultiplier (this_shop g))
                ((new_Item t None u)\<lparr>db_id := None\<rparr>))"
  using buyItem_error_or_commit[of h u g uid index iid]
  by (auto simp: emit_def)

lemma buyItem_keeps_finite_stock_nonneg:
  assumes "finite_stock_nonneg (sell_list (this_shop g))"
  shows "finite_stock_nonneg (sell_list (this_shop (buyItem h u g uid index iid)))"
proof -
  from buyItem_shop_cases[of h u g uid index iid]
  consider "this_shop (buyItem h u g uid index iid) = this_shop g"
    | c e t where "buy_checks_pass g uid index iid c e t"
        "shopQuantity e = - 1 \<or> 1 \<le> shopQuantity e"
        "buyItem h u g uid index iid =
              buyItem_commit g uid c (nat index) e t
                (price (stats t) * sell_priceMultiplier (this_shop g))
                ((new_Item t None u)\<lparr>db_id := None\<rparr>)"
    by blast
  then show ?thesis
  proof cases
    case 1
    with assms show ?thesis by simp
  next
    case 2
    let ?l = "sell_list (this_shop g)"
    let ?e1 = "if shopQuantity e \<noteq> - 1 then e\<lparr>shopQuantity := shopQuantity e - 1\<rparr> else e"
    from 2(1) have e: "nat index < length ?l" "?l ! nat index = e"
      using js_index_Some[of ?l index e] by (auto simp: buy_checks_pass_def)
    have e1: "shopQuantity ?e1 \<noteq> - 1 \<longrightarrow> 0 \<le> shopQuantity ?e1" using 2(2) by auto
    have upd: "finite_stock_nonneg (?l[nat index := ?e1])"
      unfolding finite_stock_nonneg_def
    proof
      fix x assume "x \<in> set (?l[nat index := ?e1])"
      then have "x = ?e1 \<or> x \<in> set ?l"
        using set_update_subset_insert[of ?l "nat index" ?e1] by auto
      then show "shopQuantity x \<noteq> - 1 \<longrightarrow> 0 \<le> shopQuantity x"
        using e1 assms by (auto simp: finite_stock_nonneg_def)
    qed
    have spl: "finite_stock_nonneg (splice1 ?l (nat index))"
      using assms set_splice1[of ?l "nat index"] by (auto simp: finite_stock_nonneg_def)
    from buyItem_commit_sell_list[of g uid c "nat index" e t
           "price (stats t) * sell_priceMultiplier (this_shop g)"
           "(new_Item t None u)\<lparr>db_id := None\<rparr>"] upd spl 2(3)
    show ?thesis by auto
  qed
qed

lemma buyItems_keep_finite_stock_nonneg:
  "finite_stock_nonneg (sell_list (this_shop g)) \<Longrightarrow>
   finite_stock_nonneg (sell_list (this_shop (buyItems h calls g)))"
  by (induction calls arbitrary: g) (simp_all add: buyItem_keeps_finite_stock_nonneg)

lemma buyItem_out_of_stock:
  assumes "js_index (sell_list (this_shop g)) index = Some e"
    and "shopQuantity e < 1" "shopQuantity e \<noteq> - 1"
  shows "this_shop (buyItem h u g uid index iid) = this_shop g"
    and "characters (buyItem h u g uid index iid) = characters g"
    and "buy_checks_pass g uid index iid c e t \<Longrightarrow>
           buyItem h u g uid index iid =
             eventToUser g uid ''error'' [S ''They do not appear to have that item anymore'']"
  using assms
  by (auto simp: buyItem_def buy_checks_pass_def Let_def eventToUser_def emit_def
           split: option.splits)

lemma buyItem_last_unit_removed:
  assumes ok: "buy_checks_pass g uid index iid c e t"
    and q: "shopQuantity e = 1"
    and room: "h c ((new_Item t None u)\<lparr>db_id := None\<rparr>)"
    and tpl: "all_have_template (templates g) (sell_list (this_shop g))"
  shows "sell_list (this_shop (buyItem h u g uid index iid)) =
           splice1 (sell_list (this_shop g)) (nat index)"
proof -
  let ?l = "sell_list (this_shop g)"
  from ok have e: "nat index < length ?l" "?l ! nat index = e"
    using js_index_Some[of ?l index e] by (auto simp: buy_checks_pass_def)
  from ok have en: "sell_enabled (this_shop g)" by (simp add: buy_checks_pass_def)
  have "all_have_template (templates g) (?l[nat index := e\<lparr>shopQuantity := 0\<rparr>])"
    using all_have_template_update[OF tpl e(1), of "e\<lparr>shopQuantity := 0\<rparr>"] e(2) by simp
  from export_entries_total[OF this] obtain listing where
    ex: "export_entries (templates g) (?l[nat index := e\<lparr>shopQuantity := 0\<rparr>]) = Inr listing"
    by blast
  have "buyItem h u g uid index iid =
          buyItem_commit g uid c (nat index) e t
            (price (stats t) * sell_priceMultiplier (this_shop g))
            ((new_Item t None u)\<lparr>db_id := None\<rparr>)"
    using buyItem_reaches_capacity_check[OF ok, of h u] q room by simp
  then show ?thesis using q ex en
    by (simp add: buyItem_commit_def Let_def getSellList_def emit_def eventToUser_def
          splice1_update)
qed

lemmas buy_eval = buyItem_def buyItem_commit_def characterManager_get_def js_index_def
  exp_below_def getTemplate_def toLowerCase_def lower_char_def itemManager_add_def new_Item_def
  updateCash_def giveItem_def getLocationId_def getSellList_def eventToUser_def emit_def
  newEvent_def splice1_def Let_def


text \<open>
  Claim C3 fails on the code. In the scenario (sell list exactly one "bread" entry with
  \<open>shopQuantity\<close> 1, template price 5, multiplier 1, actor cash 10) the actor ends
  with cash 5 and a new bread instance and the sell list ends empty, but \<open>buyItem\<close>
  builds and dispatches the \<open>SHOP_UPDATE\<close> before it splices the sold-out entry:
  the inventory payload sent to the room is the bread entry with quantity 0, and no
  \<open>SHOP_UPDATE\<close> with an empty inventory is dispatched.
\<close>

theorem buyItem_bread_broadcast_before_removal:
  "sell_list (this_shop ex_game) = [\<lparr>entry = ex_bread, shopQuantity = 1, expRequired = Some 0\<rparr>] \<and>
   item_id ex_bread = ''bread'' \<and>
   getTemplate (templates ex_game) ''bread'' = Some ex_bread \<and>
   price (stats ex_bread) = 5 \<and>
   sell_priceMultiplier (this_shop ex_game) = 1 \<and>
   characterManager_get ex_game ''u1'' = Some ex_actor \<and>
   stats_money ex_actor = 10 \<and>
   buyItem ex_hasRoom 7 ex_game ''u1'' 0 ''bread'' =
     ex_game\<lparr>
       characters := [''u1'' \<mapsto>
          ex_actor\<lparr>stats_money := 5, inventory := [ex_bread\<lparr>fingerprint := 7\<rparr>]\<rparr>],
       this_shop := ex_shop\<lparr>sell_list := []\<rparr>,
       effects :=
         [UpdateClient ''u1'',
          DispatchToUser ''u1'' (GAME_EVENT ''success''
             [S ''You have purchased 1x '', S ''Bread'', S '' for '', N 5] []),
          DispatchToRoom (''london'', 1, 2) (SHOP_UPDATE ''bakery''
             [\<lparr>ex_id = ''bread'', ex_name = ''Bread'', ex_quantity = 0,
               ex_expRequired = Some 0, ex_price = 5\<rparr>])]\<rparr> \<and>
   DispatchToRoom (''london'', 1, 2) (SHOP_UPDATE ''bakery'' [])
     \<notin> set (effects (buyItem ex_hasRoom 7 ex_game ''u1'' 0 ''bread''))"
  by (simp add: ex_defs buy_eval)

text \<open>
  The last test of \<open>buyItem\<close>, \<open>item.shopQuantity <= 0\<close>, also holds for the
  sentinel \<open>-1\<close>: a purchase of an entry with unlimited stock that goes through
  splices the entry out of the sell list, and no \<open>SHOP_UPDATE\<close> is dispatched.
\<close>

theorem buyItem_unlimited_entry_pruned:
  assumes "buy_checks_pass g uid index iid c e t"
    and "shopQuantity e = - 1"
    and "h c ((new_Item t None u)\<lparr>db_id := None\<rparr>)"
  shows "sell_list (this_shop (buyItem h u g uid index iid)) =
           splice1 (sell_list (this_shop g)) (nat index) \<and>
         effects (buyItem h u g uid index iid) =
           effects g @
             [UpdateClient (user_id c),
              DispatchToUser (user_id c) (GAME_EVENT ''success''
                [S ''You have purchased 1x '', S (item_name t), S '' for '',
                 N (price (stats t) * sell_priceMultiplier (this_shop g))] [])]"
proof -
  from assms(1) have e: "nat index < length (sell_list (this_shop g))"
      "sell_list (this_shop g) ! nat index = e"
    using js_index_Some[of "sell_list (this_shop g)" index e]
    by (auto simp: buy_checks_pass_def)
  have "buyItem h u g uid index iid =
          buyItem_commit g uid c (nat index) e t
            (price (stats t) * sell_priceMultiplier (this_shop g))
            ((new_Item t None u)\<lparr>db_id := None\<rparr>)"
    using buyItem_reaches_capacity_check[OF assms(1), of h u] assms(2,3) by simp
  then show ?thesis using assms(2) e
    by (simp add: buyItem_commit_def Let_def emit_def eventToUser_def newEvent_def
          updateCash_def giveItem_def splice1_update)
qed

text \<open>The bakery with an unlimited supply of bread, after one purchase.\<close>

theorem buyItem_unlimited_entry_pruned_witness:
  "buy_checks_pass (ex_game\<lparr>this_shop := ex_shop\<lparr>sell_list :=
        [\<lparr>entry = ex_bread, shopQuantity = - 1, expRequired = Some 0\<rparr>]\<rparr>\<rparr>)
      ''u1'' 0 ''bread'' ex_actor \<lparr>entry = ex_bread, shopQuantity = - 1, expRequired = Some 0\<rparr> ex_bread \<and>
   ex_hasRoom ex_actor ((new_Item ex_bread None 7)\<lparr>db_id := None\<rparr>) \<and>
   sell_list (this_shop (buyItem ex_hasRoom 7 (ex_game\<lparr>this_shop := ex_shop\<lparr>sell_list :=
        [\<lparr>entry = ex_bread, shopQuantity = - 1, expRequired = Some 0\<rparr>]\<rparr>\<rparr>) ''u1'' 0 ''bread'')) = []"
proof -
  let ?e = "\<lparr>entry = ex_bread, shopQuantity = - 1, expRequired = Some 0\<rparr>"
  let ?g = "ex_game\<lparr>this_shop := ex_shop\<lparr>sell_list := [?e]\<rparr>\<rparr>"
  have ok: "buy_checks_pass ?g ''u1'' 0 ''bread'' ex_actor ?e ex_bread"
    by (simp add: buy_checks_pass_def ex_defs characterManager_get_def js_index_def
          exp_below_def getTemplate_def toLowerCase_def lower_char_def)
  have q: "shopQuantity ?e = - 1" by simp
  have room: "ex_hasRoom ex_actor ((new_Item ex_bread None 7)\<lparr>db_id := None\<rparr>)"
    by (simp add: ex_defs)
  from buyItem_unlimited_entry_pruned[where h = ex_hasRoom and u = 7, OF ok q room] ok room
  show ?thesis by (simp add: splice1_def)
qed

section \<open>Shop: sellItem\<close>

lemma findIndex_None: "findIndex p xs = None \<longleftrightarrow> (\<forall>x\<in>set xs. \<not> p x)"
  by (induction xs) auto

text \<open>
  Claim C7. When the shop buys and no item of the actor's inventory has the given
  fingerprint, \<open>sellItem\<close> emits the one error event "Invalid item." and nothing else
  changes: the characters (cash, experience, inventory) and the shop (sell and buy
  lists) are as before.
\<close>

theorem sellItem_unknown_fingerprint:
  assumes "characterManager_get g uid = Some c"
    and "buy_enabled (this_shop g)"
    and "\<forall>obj\<in>set (inventory c). fingerprint obj \<noteq> fp"
  shows "sellItem uuid g uid fp =
           g\<lparr>effects := effects g @
                [DispatchToUser uid (GAME_EVENT ''error'' [S ''Invalid item.''] [])]\<rparr> \<and>
         characters (sellItem uuid g uid fp) = characters g \<and>
         characters (sellItem uuid g uid fp) uid = Some c \<and>
         sell_list (this_shop (sellItem uuid g uid fp)) = sell_list (this_shop g) \<and>
         buy_list (this_shop (sellItem uuid g uid fp)) = buy_list (this_shop g) \<and>
         this_shop (sellItem uuid g uid fp) = this_shop g"
proof -
  from assms(3) have "findIndex (\<lambda>obj. fingerprint obj = fp) (inventory c) = None"
    by (simp add: findIndex_None)
  with assms(1,2) have "sellItem uuid g uid fp =
           g\<lparr>effects := effects g @
                [DispatchToUser uid (GAME_EVENT ''error'' [S ''Invalid item.''] [])]\<rparr>"
    by (simp add: sellItem_def eventToUser_def emit_def newEvent_def)
  with assms(1) show ?thesis by (simp add: characterManager_get_def)
qed

text \<open>C7 on an actor holding a knife and hash, asked for fingerprint 40.\<close>

theorem sellItem_unknown_fingerprint_witness:
  "characterManager_get (ex_game\<lparr>characters := [''u1'' \<mapsto> ex_actor\<lparr>inventory := [ex_knife, ex_hash]\<rparr>]\<rparr>)
      ''u1'' = Some (ex_actor\<lparr>inventory := [ex_knife, ex_hash]\<rparr>) \<and>
   buy_enabled (this_shop ex_game) \<and>
   fingerprint ex_knife \<noteq> 40 \<and> fingerprint ex_hash \<noteq> 40 \<and>
   sellItem 7 (ex_game\<lparr>characters := [''u1'' \<mapsto> ex_actor\<lparr>inventory := [ex_knife, ex_hash]\<rparr>]\<rparr>)
       ''u1'' 40
     = ex_game\<lparr>characters := [''u1'' \<mapsto> ex_actor\<lparr>inventory := [ex_knife, ex_hash]\<rparr>],
               effects := [DispatchToUser ''u1'' (GAME_EVENT ''error'' [S ''Invalid item.''] [])]\<rparr>"
proof -
  let ?c = "ex_actor\<lparr>inventory := [ex_knife, ex_hash]\<rparr>"
  let ?g = "ex_game\<lparr>characters := [''u1'' \<mapsto> ?c]\<rparr>"
  have h: "characterManager_get ?g ''u1'' = Some ?c" "buy_enabled (this_shop ?g)"
    "\<forall>obj\<in>set (inventory ?c). fingerprint obj \<noteq> 40"
    by (simp_all add: ex_defs characterManager_get_def)
  from sellItem_unknown_fingerprint[OF h, of 7] h show ?thesis
    by (simp add: ex_defs)
qed

section \<open>Shop: resupply\<close>

text \<open>
  Claim C4 fails on the code. The loop \<open>for (let i = itemsToAdd; i >= 0; i--)\<close> runs
  \<open>itemsToAdd + 1\<close> times: with one candidate, \<open>numberOfItems = [1, 1]\<close> and so
  \<open>itemsToAdd = 1\<close>, a pass drops the finite bread entry, keeps the unlimited knife
  entry and appends two new entries, not one.
\<close>

theorem resupply_appends_one_more_than_drawn:
  "ex_dice 0 1 1 = 1 \<and>
   resupply ex_dice ex_uuid ex_templates ex_supply_shop =
     (ex_supply_shop\<lparr>sell_list :=
        [\<lparr>entry = ex_knife, shopQuantity = - 1, expRequired = Some 0\<rparr>,
         \<lparr>entry = ex_bread\<lparr>fingerprint := 100\<rparr>, shopQuantity = 2, expRequired = None\<rparr>,
         \<lparr>entry = ex_bread\<lparr>fingerprint := 101\<rparr>, shopQuantity = 2, expRequired = None\<rparr>]\<rparr>,
      None)"
  by (simp add: resupply_def ex_supply_shop_def ex_dice_def ex_uuid_def ex_defs js_index_def
        itemManager_add_def getTemplate_def toLowerCase_def lower_char_def new_Item_def Let_def)

text \<open>
  In general: a pass that runs to its end keeps exactly the unlimited entries, in
  their order, and appends \<open>itemsToAdd + 1\<close> entries after them, where
  \<open>itemsToAdd\<close> is the number the first \<open>dice\<close> call returned.
\<close>

lemma resupply_loop_appends:
  "resupply_loop dice uuid tpls unique i k items totalItems list = (list', None) \<Longrightarrow> - 1 \<le> i \<Longrightarrow>
   \<exists>new. list' = list @ new \<and> int (length new) = i + 1"
proof (induction dice uuid tpls unique i k items totalItems list rule: resupply_loop.induct)
  case (1 dice uuid tpls unique i k items totalItems list)
  note unfold = resupply_loop.simps[of dice uuid tpls unique i k items totalItems list]
  note run = "1.prems"(1)[unfolded unfold]
  show ?case
  proof (cases "i \<ge> 0")
    case False
    with run "1.prems"(2) show ?thesis by (simp del: resupply_loop.simps)
  next
    case True
    let ?index = "dice (2 * k + 1) 0 totalItems"
    from run True obtain supplyItem where
      si: "js_index items ?index = Some supplyItem"
      by (cases "js_index items ?index") (simp_all del: resupply_loop.simps add: Let_def)
    from run True si obtain newItem where
      ni: "itemManager_add tpls (uuid k) (supply_id supplyItem) None None = Some newItem"
      by (cases "itemManager_add tpls (uuid k) (supply_id supplyItem) None None")
         (simp_all del: resupply_loop.simps add: Let_def)
    let ?q = "dice (2 * k + 2) (fst (quantity supplyItem)) (snd (quantity supplyItem))"
    let ?list1 = "list @ [\<lparr>entry = newItem, shopQuantity = ?q, expRequired = None\<rparr>]"
    let ?items1 = "if unique then splice1 items (nat ?index) else items"
    let ?total1 = "if unique then int (length ?items1) else totalItems"
    from run True si ni have
      rec: "resupply_loop dice uuid tpls unique (i - 1) (Suc k) ?items1 ?total1 ?list1 = (list', None)"
      by (cases unique; simp del: resupply_loop.simps add: Let_def)
    from "1.IH"[OF True refl si ni refl refl refl refl rec] True
    obtain new where "list' = ?list1 @ new" "int (length new) = i - 1 + 1" by auto
    then show ?thesis
      by (intro exI[of _ "\<lparr>entry = newItem, shopQuantity = ?q, expRequired = None\<rparr> # new"])
         simp
  qed
qed

theorem resupply_pass_count:
  assumes "shop_supply this = Some cfg"
    and "resupply dice uuid tpls this = (this', None)"
    and "0 \<le> dice 0 (fst (numberOfItems cfg)) (snd (numberOfItems cfg))"
  shows "\<exists>new. sell_list this' =
                 filter (\<lambda>e. shopQuantity e = - 1) (sell_list this) @ new \<and>
               int (length new) = dice 0 (fst (numberOfItems cfg)) (snd (numberOfItems cfg)) + 1"
proof -
  let ?n = "dice 0 (fst (numberOfItems cfg)) (snd (numberOfItems cfg))"
  let ?kept = "filter (\<lambda>e. shopQuantity e = - 1) (sell_list this)"
  obtain l err where l: "resupply_loop dice uuid tpls (uniqueItems cfg) ?n 0 (supply_items cfg)
                  (int (length (supply_items cfg))) ?kept = (l, err)"
    by (cases "resupply_loop dice uuid tpls (uniqueItems cfg) ?n 0 (supply_items cfg)
                  (int (length (supply_items cfg))) ?kept")
  with assms(1,2) have "err = None" "sell_list this' = l"
    by (auto simp: resupply_def Let_def)
  with l resupply_loop_appends[of dice uuid tpls "uniqueItems cfg" ?n 0 "supply_items cfg"
         "int (length (supply_items cfg))" ?kept l] assms(3)
  show ?thesis by auto
qed

text \<open>The pass on the bakery: one drawn, two appended.\<close>

theorem resupply_pass_count_witness:
  "shop_supply ex_supply_shop =
     Some \<lparr>supply_items = [\<lparr>supply_id = ''bread'', quantity = (2, 2)\<rparr>],
           numberOfItems = (1, 1), uniqueItems = False\<rparr> \<and>
   snd (resupply ex_dice ex_uuid ex_templates ex_supply_shop) = None \<and>
   0 \<le> ex_dice 0 1 1 \<and>
   (\<exists>new. sell_list (fst (resupply ex_dice ex_uuid ex_templates ex_supply_shop)) =
            [\<lparr>entry = ex_knife, shopQuantity = - 1, expRequired = Some 0\<rparr>] @ new \<and>
          int (length new) = 2)"
proof -
  have s: "shop_supply ex_supply_shop =
     Some \<lparr>supply_items = [\<lparr>supply_id = ''bread'', quantity = (2, 2)\<rparr>],
           numberOfItems = (1, 1), uniqueItems = False\<rparr>"
    by (simp add: ex_supply_shop_def)
  have r: "snd (resupply ex_dice ex_uuid ex_templates ex_supply_shop) = None"
    by (simp add: resupply_def ex_supply_shop_def ex_dice_def ex_uuid_def ex_defs js_index_def
        itemManager_add_def getTemplate_def toLowerCase_def lower_char_def new_Item_def Let_def)
  then have r': "resupply ex_dice ex_uuid ex_templates ex_supply_shop =
                  (fst (resupply ex_dice ex_uuid ex_templates ex_supply_shop), None)"
    by (simp add: prod_eq_iff)
  have d: "0 \<le> ex_dice 0 (fst (numberOfItems \<lparr>supply_items = [\<lparr>supply_id = ''bread'', quantity = (2, 2)\<rparr>],
           numberOfItems = (1, 1), uniqueItems = False\<rparr>)) (snd (numberOfItems \<lparr>supply_items = [\<lparr>supply_id = ''bread'', quantity = (2, 2)\<rparr>],
           numberOfItems = (1, 1), uniqueItems = False\<rparr>))"
    by (simp add: ex_dice_def)
  from resupply_pass_count[OF s r' d] s r show ?thesis
    by (simp add: ex_dice_def ex_supply_shop_def ex_shop_def)
qed

section \<open>Item manager: pickup\<close>

text \<open>
  Claim C5 fails on the code. The fall-back test is \<open>indexOf(itemName) !== -1\<close>, which
  holds when the query occurs anywhere in the name: "Knife" is neither the name
  "Iron Knife" (case-insensitively) nor a prefix of it, yet \<open>pickup\<close> returns the
  knife and removes it from the location.
\<close>

theorem pickup_matches_inside_the_name:
  "toLowerCase (item_name ex_knife) \<noteq> toLowerCase ''Knife'' \<and>
   \<not> prefix (toLowerCase ''Knife'') (toLowerCase (item_name ex_knife)) \<and>
   getLocationList ex_ground ''london'' 2 1 = [ex_knife] \<and>
   pickup 7 ex_ground ''london'' 2 1 (Some ''Knife'') 1 =
     (Picked ex_knife, ex_ground\<lparr>dropped_items := [(''london'', 1, 2) \<mapsto> []]\<rparr>)"
  by (simp add: pickup_def find_by_name_def getLocationList_def ex_ground_def ex_defs
        toLowerCase_def lower_char_def splice1_def Let_def)

section \<open>Chat commands: the cooldown gate\<close>




section \<open>User manager: one session per account\<close>

lemma session_accounts_filter_subset:
  "set (session_accounts (filter P cs)) \<subseteq> set (session_accounts cs)"
  by (induction cs) (auto simp: session_accounts_def split: option.splits)

lemma session_accounts_filter_distinct:
  "distinct (session_accounts cs) \<Longrightarrow> distinct (session_accounts (filter P cs))"
proof (induction cs)
  case Nil
  then show ?case by simp
next
  case (Cons c cs)
  then show ?case
    using session_accounts_filter_subset[of P cs]
    by (auto simp: session_accounts_def split: option.splits)
qed

lemma session_accounts_logged_out:
  "uid \<notin> set (session_accounts (filter (\<lambda>c. \<not> has_account (Some uid) c) cs))"
  by (induction cs)
     (auto simp: session_accounts_def has_account_def split: option.splits)

lemma session_accounts_append:
  "session_accounts (cs @ [c]) =
     session_accounts cs @ (case socket_user c of Some (Some u) \<Rightarrow> [u] | _ \<Rightarrow> [])"
  by (induction cs) (auto simp: session_accounts_def split: option.splits)

text \<open>
  A call of \<open>authenticate\<close> that succeeds, runs alone and whose logout is not
  rejected does keep one session per account: the sessions the account had are sent
  the remote-logout event and leave the list before the socket is tagged and appended.
\<close>

lemma authenticate_alone:
  assumes "payload = Some token" and "token \<noteq> []"
    and "decoded = Some d" and "found = Inr (Some uid)"
    and "one_session_per_account st"
  shows "authenticate st sock payload decoded found False =
           (st\<lparr>clients := filter (\<lambda>c. socket_user c \<noteq> Some (Some uid)) (clients st) @
                            [sock\<lparr>socket_user := Some (Some uid)\<rparr>],
               sent := sent st @
                 map (\<lambda>c. DispatchToSocket (socket_id c) CHARACTER_REMOTE_LOGOUT)
                     (filter (\<lambda>c. socket_user c = Some (Some uid)) (clients st)) @
                 [DispatchToSocket (socket_id sock) (USER_AUTHENTICATE_SUCCESS (game_maps st))]\<rparr>,
            sock\<lparr>socket_user := Some (Some uid)\<rparr>) \<and>
         one_session_per_account (fst (authenticate st sock payload decoded found False))"
proof -
  have acc: "has_account (Some uid) = (\<lambda>c. socket_user c = Some (Some uid))"
    by (auto simp: has_account_def)
  have eq: "authenticate st sock payload decoded found False =
           (st\<lparr>clients := filter (\<lambda>c. socket_user c \<noteq> Some (Some uid)) (clients st) @
                            [sock\<lparr>socket_user := Some (Some uid)\<rparr>],
               sent := sent st @
                 map (\<lambda>c. DispatchToSocket (socket_id c) CHARACTER_REMOTE_LOGOUT)
                     (filter (\<lambda>c. socket_user c = Some (Some uid)) (clients st)) @
                 [DispatchToSocket (socket_id sock) (USER_AUTHENTICATE_SUCCESS (game_maps st))]\<rparr>,
            sock\<lparr>socket_user := Some (Some uid)\<rparr>)"
    using assms(1-4)
    by (simp add: authenticate_def authenticate_begin_def authenticate_resume_def
          logoutOutSession_def socketManager_add_def dispatchToSocket_def Let_def acc)
  have d: "distinct (session_accounts (filter (\<lambda>c. \<not> has_account (Some uid) c) (clients st)))"
    using assms(5) by (simp add: one_session_per_account_def session_accounts_filter_distinct)
  have inv: "one_session_per_account (fst (authenticate st sock payload decoded found False))"
    using d session_accounts_logged_out[of uid "clients st"]
    by (simp add: eq one_session_per_account_def session_accounts_append acc)
  from eq inv show ?thesis by simp
qed



end
